theory Spec2Isabelle
  imports Main
begin

section \<open>Business card scanner: the pipeline of \<open>App.tsx\<close>\<close>

text \<open>
  The component \<open>App\<close> keeps its state in five React state cells and drives it from two
  asynchronous handlers, \<open>pickAndRecognize\<close> and \<open>captureAndRecognize\<close>, a mount effect
  that asks for the camera and microphone permissions, and the synchronous classifier
  \<open>validateCard\<close>. Every setter writes an absolute value (there is no functional update),
  so a handler is a sequence of record updates, cut at each \<open>await\<close> into one function per
  resumption. What the awaited call settles to is an argument of the next function:
  \<open>Inl err\<close> for a rejected promise, \<open>Inr v\<close> for a resolved one.
\<close>

subsection \<open>Data\<close>

text \<open>
  The interpretation result is a JavaScript object from field names to arrays of strings.
  It is an association list holding the entries in the order of \<open>Object.keys\<close>.
\<close>

type_synonym contact_info = "(string \<times> string list) list"

datatype error = Error string

record app_state =
  processedText :: string
  hasPermissions :: bool
  isProcessingText :: bool
  cardIsFound :: bool
  contactInfo :: contact_info
  console :: "error list"

text \<open>The state of the first render; \<open>console\<close> collects what \<open>console.log\<close> is given.\<close>

definition initial_state :: app_state where
  "initial_state =
     \<lparr> processedText = ''Scan a Card to see'' @ [CHR 0x0A] @ ''Contact info here'',
       hasPermissions = False,
       isProcessingText = False,
       cardIsFound = False,
       contactInfo = [],
       console = [] \<rparr>"

text \<open>
  Modelled from the spec: the type \<open>CameraPermissionRequestResult\<close> is declared by the
  camera library, not by this repository; the spec gives the permission capability the
  four statuses below. The source only ever compares a status with \<open>'denied'\<close>.
\<close>

datatype permission_status = Granted | Denied | Restricted | NotDetermined

record alert =
  alertTitle :: string
  alertMessage :: string
  alertButtons :: "string list"

record image =
  path :: string
  width :: int
  height :: int

text \<open>
  The argument of \<open>interpretImage\<close>. In \<open>captureAndRecognize\<close> it is the object literal
  \<open>{...image, path: imagePath}\<close>, where \<open>image\<close> and \<open>imagePath\<close> may both be
  \<open>undefined\<close>: a field that is absent or \<open>undefined\<close> is \<open>None\<close>.
\<close>

record request =
  req_path :: "string option"
  req_width :: "int option"
  req_height :: "int option"

text \<open>The answer of the service: \<open>result?.data\<close> reads an optional field of an optional object.\<close>

record response =
  data :: "contact_info option"

record photo_options =
  qualityPrioritization :: string
  enableAutoStabilization :: bool
  flash :: string
  skipMetadata :: bool

text \<open>The external call a handler has issued and is suspended on.\<close>

datatype call =
    OpenPicker bool
  | TakePhoto photo_options
  | InterpretImage request

subsection \<open>The result validator\<close>

definition keys :: "contact_info \<Rightarrow> string list" where
  "keys result = map fst result"

definition validateCard :: "contact_info \<Rightarrow> app_state \<Rightarrow> app_state" where
  "validateCard result s =
     (if length (keys result) \<noteq> 0
      then (s\<lparr>contactInfo := result\<rparr>)\<lparr>cardIsFound := True\<rparr>
      else (s\<lparr>processedText := ''No valid Business Card found, please try again!!''\<rparr>)
             \<lparr>cardIsFound := False\<rparr>)"

subsection \<open>The two handlers\<close>

text \<open>\<open>result?.data ?? {}\<close>: an absent result or an absent payload is the empty object.\<close>

definition data_or_empty :: "response option \<Rightarrow> contact_info" where
  "data_or_empty result =
     (case result of
        None \<Rightarrow> []
      | Some r \<Rightarrow> (case data r of None \<Rightarrow> [] | Some m \<Rightarrow> m))"

text \<open>Both handlers end a failed attempt the same way: log the error, clear the busy flag.\<close>

definition on_error :: "error \<Rightarrow> app_state \<Rightarrow> app_state" where
  "on_error err s = (s\<lparr>console := console s @ [err]\<rparr>)\<lparr>isProcessingText := False\<rparr>"

text \<open>
  What follows \<open>await interpretImage(...)\<close> in both handlers: on success the busy flag
  is cleared and the payload classified, on failure the \<open>catch\<close> runs.
\<close>

definition onInterpret :: "error + response option \<Rightarrow> app_state \<Rightarrow> app_state" where
  "onInterpret settled s =
     (case settled of
        Inl err \<Rightarrow> on_error err s
      | Inr result \<Rightarrow> validateCard (data_or_empty result) (s\<lparr>isProcessingText := False\<rparr>))"

definition request_of :: "image \<Rightarrow> request" where
  "request_of res =
     \<lparr> req_path = Some (path res), req_width = Some (width res), req_height = Some (height res) \<rparr>"

text \<open>
  \<open>pickAndRecognize\<close> up to its first suspension: it opens the picker with cropping
  disabled and touches no state.
\<close>

definition pickAndRecognize :: "app_state \<Rightarrow> app_state \<times> call option" where
  "pickAndRecognize s = (s, Some (OpenPicker False))"

text \<open>
  The picker has settled: the \<open>then\<close> callback sets the busy flag and calls the
  interpretation client with the picked image; the \<open>catch\<close> handles a rejection.
\<close>

definition pick_onPicker :: "error + image \<Rightarrow> app_state \<Rightarrow> app_state \<times> call option" where
  "pick_onPicker settled s =
     (case settled of
        Inl err \<Rightarrow> (on_error err s, None)
      | Inr res \<Rightarrow> (s\<lparr>isProcessingText := True\<rparr>, Some (InterpretImage (request_of res))))"

definition takePhoto_options :: photo_options where
  "takePhoto_options =
     \<lparr> qualityPrioritization = ''quality'', enableAutoStabilization = True,
       flash = ''on'', skipMetadata = True \<rparr>"

text \<open>
  \<open>captureAndRecognize\<close> up to its first suspension. The flag says whether
  \<open>camera.current\<close> is set: \<open>camera.current?.takePhoto(...)\<close> calls nothing when it is not.
\<close>

definition captureAndRecognize :: "bool \<Rightarrow> app_state \<Rightarrow> app_state \<times> call option" where
  "captureAndRecognize mounted s =
     (s\<lparr>isProcessingText := True\<rparr>, if mounted then Some (TakePhoto takePhoto_options) else None)"

text \<open>
  What \<open>await camera.current?.takePhoto(...)\<close> yields: \<open>undefined\<close> when the reference is
  unset (\<open>None\<close>), else what the promise of the mounted camera settles to.
\<close>

definition takePhoto_awaited :: "(error + image) option \<Rightarrow> error + image option" where
  "takePhoto_awaited camera =
     (case camera of
        None \<Rightarrow> Inr None
      | Some (Inl err) \<Rightarrow> Inl err
      | Some (Inr img) \<Rightarrow> Inr (Some img))"

text \<open>A template literal prints \<open>undefined\<close> as the word.\<close>

definition template_string :: "string option \<Rightarrow> string" where
  "template_string v = (case v of None \<Rightarrow> ''undefined'' | Some str \<Rightarrow> str)"

text \<open>\<open>Platform.OS === 'ios' ? image?.path : `file://${image?.path}`\<close>\<close>

definition imagePath :: "string \<Rightarrow> image option \<Rightarrow> string option" where
  "imagePath os img =
     (if os = ''ios'' then map_option path img
      else Some (''file://'' @ template_string (map_option path img)))"

text \<open>\<open>{...image, path: imagePath}\<close>: spreading \<open>undefined\<close> adds no field.\<close>

definition spread_path :: "image option \<Rightarrow> string option \<Rightarrow> request" where
  "spread_path img p =
     \<lparr> req_path = p, req_width = map_option width img, req_height = map_option height img \<rparr>"

definition capture_onPhoto ::
  "string \<Rightarrow> error + image option \<Rightarrow> app_state \<Rightarrow> app_state \<times> call option" where
  "capture_onPhoto os settled s =
     (case settled of
        Inl err \<Rightarrow> (on_error err s, None)
      | Inr img \<Rightarrow> (s, Some (InterpretImage (spread_path img (imagePath os img)))))"

text \<open>
  One whole attempt with nothing interleaved: the environment is what the picker or the
  camera settles to and the interpretation client as a function of its argument.
\<close>

definition pick_run ::
  "error + image \<Rightarrow> (request \<Rightarrow> error + response option) \<Rightarrow> app_state \<Rightarrow> app_state" where
  "pick_run picked interpretImage s =
     (case pick_onPicker picked (fst (pickAndRecognize s)) of
        (s', Some (InterpretImage rq)) \<Rightarrow> onInterpret (interpretImage rq) s'
      | (s', _) \<Rightarrow> s')"

definition capture_run ::
  "string \<Rightarrow> (error + image) option \<Rightarrow> (request \<Rightarrow> error + response option)
     \<Rightarrow> app_state \<Rightarrow> app_state" where
  "capture_run os camera interpretImage s =
     (case capture_onPhoto os (takePhoto_awaited camera)
             (fst (captureAndRecognize (camera \<noteq> None) s)) of
        (s', Some (InterpretImage rq)) \<Rightarrow> onInterpret (interpretImage rq) s'
      | (s', _) \<Rightarrow> s')"

subsection \<open>The permission request\<close>

definition permissionAlert :: alert where
  "permissionAlert =
     \<lparr> alertTitle = ''Allow Permissions'',
       alertMessage =
         ''Please allow camera and microphone permission to access camera features'',
       alertButtons = [''Go to Settings'', ''Cancel''] \<rparr>"

text \<open>The mount effect, once both requests have resolved.\<close>

definition requestPermissions ::
  "permission_status \<Rightarrow> permission_status \<Rightarrow> app_state \<Rightarrow> app_state \<times> alert option" where
  "requestPermissions cameraPermission microPhonePermission s =
     (if cameraPermission = Denied \<or> microPhonePermission = Denied
      then (s\<lparr>hasPermissions := False\<rparr>, Some permissionAlert)
      else (s\<lparr>hasPermissions := True\<rparr>, None))"

subsection \<open>The renderer\<close>

datatype device = CameraDevice string

datatype camera_view = CameraView device | NoCameraText string

text \<open>A row of the field list: the text of the key and the texts under it.\<close>

type_synonym contact_row = "string \<times> string list"

datatype status_view =
    ActivityIndicator
  | ScrollView "contact_row list"
  | ErrorText string

record view =
  title :: string
  galleryBtn :: string
  cameraArea :: camera_view
  statusArea :: status_view

text \<open>
  One row per key of \<open>Object.keys(contactInfo)\<close>: the key followed by a colon, then the
  values found under that key, or \<open>Undefined\<close> when the lookup has no length.
\<close>

definition contactRow :: "contact_info \<Rightarrow> string \<Rightarrow> contact_row" where
  "contactRow info key =
     (key @ '':'',
      case map_of info key of
        None \<Rightarrow> [''Undefined'']
      | Some rows \<Rightarrow> if length rows \<noteq> 0 then rows else [''Undefined''])"

definition App_render :: "device option \<Rightarrow> app_state \<Rightarrow> view" where
  "App_render dev s =
     \<lparr> title = ''Business Card Scanner'',
       galleryBtn = ''Pick from Gallery'',
       cameraArea =
         (case dev of
            Some d \<Rightarrow> if hasPermissions s then CameraView d else NoCameraText ''No Camera Found''
          | None \<Rightarrow> NoCameraText ''No Camera Found''),
       statusArea =
         (if isProcessingText s then ActivityIndicator
          else if cardIsFound s then ScrollView (map (contactRow (contactInfo s)) (keys (contactInfo s)))
          else ErrorText (processedText s)) \<rparr>"

section \<open>Properties\<close>

subsection \<open>The result validator\<close>

text \<open>
  C4: \<open>validateCard\<close> classifies a result as found exactly when it has at least one key,
  and then stores the mapping as it is, whatever its value sequences hold; a result with
  no key is classified as not found with the fixed message. With the busy flag cleared,
  as it is where the handlers call the validator, the renderer shows the field list of
  that mapping in the first case and the message in the second.
\<close>

theorem validateCard_classifies:
  "(cardIsFound (validateCard m s) \<longleftrightarrow> keys m \<noteq> []) \<and>
   (keys m \<noteq> [] \<longrightarrow> contactInfo (validateCard m s) = m) \<and>
   (keys m = [] \<longrightarrow>
      processedText (validateCard m s) = ''No valid Business Card found, please try again!!'') \<and>
   statusArea (App_render dev (validateCard m (s\<lparr>isProcessingText := False\<rparr>))) =
     (if keys m \<noteq> [] then ScrollView (map (contactRow m) (keys m))
      else ErrorText ''No valid Business Card found, please try again!!'')"
  by (simp add: validateCard_def App_render_def)

theorem validateCard_classifies_witness:
  "keys [(''phone'', [])] \<noteq> [] \<and>
   cardIsFound (validateCard [(''phone'', [])] initial_state) \<and>
   contactInfo (validateCard [(''phone'', [])] initial_state) = [(''phone'', [])] \<and>
   keys [] = [] \<and>
   \<not> cardIsFound (validateCard [] initial_state) \<and>
   processedText (validateCard [] initial_state) =
     ''No valid Business Card found, please try again!!''"
  using validateCard_classifies [of "[(''phone'', [])]" initial_state None]
    validateCard_classifies [of "[]" initial_state None]
  by (simp add: keys_def)

text \<open>
  C10: a not-found classification writes the message text and the found flag and nothing
  else, so the mapping stored by an earlier found result stays in the state; a found
  classification writes the mapping and the found flag and leaves the message text as
  it was.
\<close>

theorem validateCard_frame:
  "(keys m = [] \<longrightarrow>
      validateCard m s =
        s\<lparr>processedText := ''No valid Business Card found, please try again!!'',
          cardIsFound := False\<rparr> \<and>
      contactInfo (validateCard m s) = contactInfo s) \<and>
   (keys m \<noteq> [] \<longrightarrow>
      validateCard m s = s\<lparr>contactInfo := m, cardIsFound := True\<rparr> \<and>
      processedText (validateCard m s) = processedText s)"
  by (simp add: validateCard_def)

theorem validateCard_frame_witness:
  "keys [(''email'', [''a@x.com''])] \<noteq> [] \<and>
   processedText (validateCard [(''email'', [''a@x.com''])] initial_state) =
     processedText initial_state \<and>
   keys [] = [] \<and>
   contactInfo (validateCard [] (validateCard [(''email'', [''a@x.com''])] initial_state)) =
     [(''email'', [''a@x.com''])] \<and>
   \<not> cardIsFound (validateCard [] (validateCard [(''email'', [''a@x.com''])] initial_state))"
  using validateCard_frame [of "[(''email'', [''a@x.com''])]" initial_state]
    validateCard_frame [of "[]" "validateCard [(''email'', [''a@x.com''])] initial_state"]
  by (simp add: keys_def)

subsection \<open>The permission request\<close>

text \<open>
  C2, as the code has it: the capture-usable flag is set exactly when neither request
  answered \<open>denied\<close>. A \<open>restricted\<close> or \<open>not-determined\<close> answer beside one that is
  not \<open>denied\<close> leaves the flag set.
\<close>

theorem permission_flag:
  "hasPermissions (fst (requestPermissions cameraPermission microPhonePermission s)) \<longleftrightarrow>
     cameraPermission \<noteq> Denied \<and> microPhonePermission \<noteq> Denied"
  by (simp add: requestPermissions_def)

theorem permission_flag_witness:
  "hasPermissions (fst (requestPermissions Granted Granted initial_state)) \<and>
   \<not> hasPermissions (fst (requestPermissions Granted Denied initial_state))"
  using permission_flag [of Granted Granted initial_state]
    permission_flag [of Granted Denied initial_state]
  by simp

text \<open>
  The flag is set although one of the two statuses is not \<open>granted\<close>.
\<close>

theorem permission_flag_counterexample:
  "hasPermissions (fst (requestPermissions Restricted Granted initial_state)) \<and>
   hasPermissions (fst (requestPermissions Granted NotDetermined initial_state)) \<and>
   Restricted \<noteq> Granted \<and> NotDetermined \<noteq> Granted"
  by (simp add: requestPermissions_def)

subsection \<open>The handlers\<close>

text \<open>
  C1, as the code has it: \<open>captureAndRecognize\<close> sets the busy flag before it asks the
  camera for a photo, the flag is still set when the photo has arrived and the
  interpretation call is issued, and the renderer then shows the busy indicator.
  \<open>pickAndRecognize\<close> opens the picker and leaves the state as it was; the busy flag is
  set once the picker has resolved with an image, in the step that issues the
  interpretation call.
\<close>

theorem processing_before_async:
  "fst (captureAndRecognize mounted s) = s\<lparr>isProcessingText := True\<rparr> \<and>
   capture_onPhoto os (Inr img) (s\<lparr>isProcessingText := True\<rparr>) =
     (s\<lparr>isProcessingText := True\<rparr>, Some (InterpretImage (spread_path img (imagePath os img)))) \<and>
   statusArea (App_render dev (s\<lparr>isProcessingText := True\<rparr>)) = ActivityIndicator \<and>
   pickAndRecognize s = (s, Some (OpenPicker False)) \<and>
   pick_onPicker (Inr res) s =
     (s\<lparr>isProcessingText := True\<rparr>, Some (InterpretImage (request_of res)))"
  by (simp add: captureAndRecognize_def capture_onPhoto_def App_render_def
      pickAndRecognize_def pick_onPicker_def)

theorem processing_before_async_witness:
  "isProcessingText (fst (captureAndRecognize True initial_state)) \<and>
   snd (captureAndRecognize True initial_state) = Some (TakePhoto takePhoto_options) \<and>
   isProcessingText
     (fst (capture_onPhoto ''android''
        (Inr (Some \<lparr>path = ''/data/card.jpg'', width = 4, height = 3\<rparr>))
        (fst (captureAndRecognize True initial_state)))) \<and>
   fst (pickAndRecognize initial_state) = initial_state \<and>
   isProcessingText
     (fst (pick_onPicker (Inr \<lparr>path = ''/data/card.jpg'', width = 4, height = 3\<rparr>)
        (fst (pickAndRecognize initial_state))))"
  using processing_before_async [of True initial_state "''android''"
      "Some \<lparr>path = ''/data/card.jpg'', width = 4, height = 3\<rparr>" None
      "\<lparr>path = ''/data/card.jpg'', width = 4, height = 3\<rparr>"]
  by (simp add: captureAndRecognize_def)

text \<open>
  Right after the pick-from-gallery trigger, with the picker call pending, the busy flag
  is not set and the renderer does not show the busy indicator.
\<close>

theorem pick_trigger_counterexample:
  "\<not> isProcessingText (fst (pickAndRecognize initial_state)) \<and>
   snd (pickAndRecognize initial_state) = Some (OpenPicker False) \<and>
   statusArea (App_render None (fst (pickAndRecognize initial_state))) \<noteq> ActivityIndicator"
  by (simp add: pickAndRecognize_def initial_state_def App_render_def)

text \<open>
  C5: a failure of the picker, of the camera or of the interpretation call ends the
  attempt in the \<open>catch\<close>: the error is logged and the busy flag cleared, no other state
  cell changes, and the view is the one of the state before with the busy flag off. In
  particular the message text and the found flag are as before, so a failure never puts
  the not-found message on display. The same holds of a whole attempt that fails at
  either suspension point.
\<close>

theorem failure_clears_busy:
  "pick_onPicker (Inl err) s = (on_error err s, None) \<and>
   capture_onPhoto os (Inl err) s = (on_error err s, None) \<and>
   onInterpret (Inl err) s = on_error err s \<and>
   \<not> isProcessingText (on_error err s) \<and>
   processedText (on_error err s) = processedText s \<and>
   cardIsFound (on_error err s) = cardIsFound s \<and>
   contactInfo (on_error err s) = contactInfo s \<and>
   hasPermissions (on_error err s) = hasPermissions s \<and>
   App_render dev (on_error err s) = App_render dev (s\<lparr>isProcessingText := False\<rparr>) \<and>
   pick_run (Inl err) interpretImage s = on_error err s \<and>
   capture_run os (Some (Inl err)) interpretImage s = on_error err s \<and>
   (interpretImage (request_of res) = Inl err \<longrightarrow>
      pick_run (Inr res) interpretImage s = on_error err s) \<and>
   (interpretImage (spread_path img (imagePath os img)) = Inl err \<longrightarrow>
      capture_run os (case img of None \<Rightarrow> None | Some i \<Rightarrow> Some (Inr i)) interpretImage s =
        on_error err s)"
  by (auto simp add: pick_onPicker_def capture_onPhoto_def onInterpret_def on_error_def
      App_render_def pick_run_def capture_run_def pickAndRecognize_def captureAndRecognize_def
      takePhoto_awaited_def split: option.split)

theorem failure_clears_busy_witness:
  "(\<lambda>rq. Inl (Error ''network'')) (request_of \<lparr>path = ''/data/card.jpg'', width = 4, height = 3\<rparr>)
     = (Inl (Error ''network'') :: error + response option) \<and>
   (\<lambda>rq. Inl (Error ''network''))
       (spread_path (Some \<lparr>path = ''/data/card.jpg'', width = 4, height = 3\<rparr>)
          (imagePath ''android'' (Some \<lparr>path = ''/data/card.jpg'', width = 4, height = 3\<rparr>)))
     = (Inl (Error ''network'') :: error + response option) \<and>
   pick_run (Inr \<lparr>path = ''/data/card.jpg'', width = 4, height = 3\<rparr>)
     (\<lambda>rq. Inl (Error ''network'')) initial_state =
     initial_state\<lparr>console := [Error ''network'']\<rparr> \<and>
   capture_run ''android'' (Some (Inr \<lparr>path = ''/data/card.jpg'', width = 4, height = 3\<rparr>))
     (\<lambda>rq. Inl (Error ''network'')) initial_state =
     initial_state\<lparr>console := [Error ''network'']\<rparr> \<and>
   pick_run (Inl (Error ''network'')) (\<lambda>rq. Inr None) initial_state =
     initial_state\<lparr>console := [Error ''network'']\<rparr> \<and>
   capture_run ''android'' (Some (Inl (Error ''network''))) (\<lambda>rq. Inr None) initial_state =
     initial_state\<lparr>console := [Error ''network'']\<rparr>"
  using failure_clears_busy [of "Error ''network''" initial_state "''android''" None
      "\<lambda>rq. Inl (Error ''network'')" "\<lparr>path = ''/data/card.jpg'', width = 4, height = 3\<rparr>"
      "Some \<lparr>path = ''/data/card.jpg'', width = 4, height = 3\<rparr>"]
    failure_clears_busy [of "Error ''network''" initial_state "''android''" None
      "\<lambda>rq. Inr None" "\<lparr>path = ''/data/card.jpg'', width = 4, height = 3\<rparr>"
      "Some \<lparr>path = ''/data/card.jpg'', width = 4, height = 3\<rparr>"]
  by (simp add: on_error_def initial_state_def)

text \<open>
  C6: a resolved interpretation call whose result has no data payload, or that has no
  result object at all, is classified like the empty mapping: the busy flag is cleared,
  the found flag is cleared and the fixed not-found message is stored and shown.
\<close>

theorem absent_payload_not_found:
  "data_or_empty None = [] \<and> data_or_empty (Some \<lparr>data = None\<rparr>) = [] \<and>
   onInterpret (Inr (Some \<lparr>data = None\<rparr>)) s =
     s\<lparr>isProcessingText := False,
       processedText := ''No valid Business Card found, please try again!!'',
       cardIsFound := False\<rparr> \<and>
   onInterpret (Inr None) s = onInterpret (Inr (Some \<lparr>data = None\<rparr>)) s \<and>
   onInterpret (Inr (Some \<lparr>data = Some []\<rparr>)) s = onInterpret (Inr (Some \<lparr>data = None\<rparr>)) s \<and>
   statusArea (App_render dev (onInterpret (Inr (Some \<lparr>data = None\<rparr>)) s)) =
     ErrorText ''No valid Business Card found, please try again!!''"
  by (simp add: data_or_empty_def onInterpret_def validateCard_def keys_def App_render_def)

theorem absent_payload_not_found_witness:
  "\<not> isProcessingText
     (pick_run (Inr \<lparr>path = ''/data/card.jpg'', width = 4, height = 3\<rparr>)
        (\<lambda>rq. Inr (Some \<lparr>data = None\<rparr>)) initial_state) \<and>
   \<not> cardIsFound
     (pick_run (Inr \<lparr>path = ''/data/card.jpg'', width = 4, height = 3\<rparr>)
        (\<lambda>rq. Inr (Some \<lparr>data = None\<rparr>)) initial_state) \<and>
   statusArea (App_render None
     (pick_run (Inr \<lparr>path = ''/data/card.jpg'', width = 4, height = 3\<rparr>)
        (\<lambda>rq. Inr (Some \<lparr>data = None\<rparr>)) initial_state)) =
     ErrorText ''No valid Business Card found, please try again!!''"
  using absent_payload_not_found [of "initial_state\<lparr>isProcessingText := True\<rparr>" None]
  by (simp add: pick_run_def pickAndRecognize_def pick_onPicker_def App_render_def)

text \<open>
  C7: the locator handed to the interpretation client for a captured image is fixed by
  the host name alone, through the one comparison with \<open>ios\<close>. Of the two hosts the
  application is built for, \<open>ios\<close> and \<open>android\<close>, exactly one, \<open>android\<close>, gets the
  raw path behind the local-file scheme \<open>file://\<close>, and the other, \<open>ios\<close>, gets the raw
  path as it is. That locator, with the other fields of the image, is the argument of
  the interpretation call.
\<close>

theorem imagePath_rule:
  "imagePath os (Some img) =
     (if os = ''ios'' then Some (path img) else Some (''file://'' @ path img)) \<and>
   imagePath ''android'' (Some img) = Some (''file://'' @ path img) \<and>
   imagePath ''ios'' (Some img) = Some (path img) \<and>
   (os \<in> {''ios'', ''android''} \<longrightarrow>
      (imagePath os (Some img) = Some (''file://'' @ path img) \<longleftrightarrow> os = ''android'') \<and>
      (imagePath os (Some img) = Some (path img) \<longleftrightarrow> os = ''ios'')) \<and>
   capture_onPhoto os (Inr (Some img)) s =
     (s, Some (InterpretImage
        \<lparr> req_path = imagePath os (Some img),
          req_width = Some (width img), req_height = Some (height img) \<rparr>))"
proof -
  have rule: "imagePath os (Some img) =
      (if os = ''ios'' then Some (path img) else Some (''file://'' @ path img))" for os
    by (simp add: imagePath_def template_string_def)
  have differ: "''file://'' @ path img \<noteq> path img"
    by simp
  have hosts: "os \<in> {''ios'', ''android''} \<longrightarrow>
      (imagePath os (Some img) = Some (''file://'' @ path img) \<longleftrightarrow> os = ''android'') \<and>
      (imagePath os (Some img) = Some (path img) \<longleftrightarrow> os = ''ios'')"
  proof
    assume "os \<in> {''ios'', ''android''}"
    then consider "os = ''ios''" | "os = ''android''" by blast
    then show "(imagePath os (Some img) = Some (''file://'' @ path img) \<longleftrightarrow> os = ''android'') \<and>
      (imagePath os (Some img) = Some (path img) \<longleftrightarrow> os = ''ios'')"
    proof cases
      case 1
      then show ?thesis using differ by (simp add: rule)
    next
      case 2
      then show ?thesis using differ by (simp add: rule)
    qed
  qed
  have handoff: "capture_onPhoto os (Inr (Some img)) s =
     (s, Some (InterpretImage
        \<lparr> req_path = imagePath os (Some img),
          req_width = Some (width img), req_height = Some (height img) \<rparr>))"
    by (simp add: capture_onPhoto_def spread_path_def)
  from rule [of os] rule [of "''android''"] rule [of "''ios''"] hosts handoff
  show ?thesis by simp
qed

theorem imagePath_rule_witness:
  "''android'' \<in> {''ios'', ''android''} \<and> ''ios'' \<in> {''ios'', ''android''} \<and>
   imagePath ''ios'' (Some \<lparr>path = ''/data/card.jpg'', width = 4, height = 3\<rparr>) =
     Some ''/data/card.jpg'' \<and>
   imagePath ''android'' (Some \<lparr>path = ''/data/card.jpg'', width = 4, height = 3\<rparr>) =
     Some ''file:///data/card.jpg'' \<and>
   imagePath ''android'' (Some \<lparr>path = ''/data/card.jpg'', width = 4, height = 3\<rparr>) \<noteq>
     Some ''/data/card.jpg'' \<and>
   imagePath ''ios'' (Some \<lparr>path = ''/data/card.jpg'', width = 4, height = 3\<rparr>) \<noteq>
     Some ''file:///data/card.jpg'' \<and>
   snd (capture_onPhoto ''android''
          (Inr (Some \<lparr>path = ''/data/card.jpg'', width = 4, height = 3\<rparr>)) initial_state) =
     Some (InterpretImage
        \<lparr> req_path = Some ''file:///data/card.jpg'', req_width = Some 4, req_height = Some 3 \<rparr>)"
  using imagePath_rule [of "''ios''" "\<lparr>path = ''/data/card.jpg'', width = 4, height = 3\<rparr>" initial_state]
    imagePath_rule [of "''android''" "\<lparr>path = ''/data/card.jpg'', width = 4, height = 3\<rparr>" initial_state]
  by simp

text \<open>
  C9: with \<open>camera.current\<close> unset the handler still sets the busy flag, awaits
  \<open>undefined\<close> and goes on to call the interpretation client, with no width or height
  and with a locator that is \<open>undefined\<close> on \<open>ios\<close> and the string \<open>file://undefined\<close>
  on every other host; the attempt ends with whatever that call settles to.
\<close>

theorem capture_without_camera:
  "captureAndRecognize False s = (s\<lparr>isProcessingText := True\<rparr>, None) \<and>
   takePhoto_awaited None = Inr None \<and>
   capture_onPhoto os (takePhoto_awaited None) s =
     (s, Some (InterpretImage
        \<lparr> req_path = (if os = ''ios'' then None else Some ''file://undefined''),
          req_width = None, req_height = None \<rparr>)) \<and>
   capture_run os None interpretImage s =
     onInterpret
       (interpretImage
          \<lparr> req_path = (if os = ''ios'' then None else Some ''file://undefined''),
            req_width = None, req_height = None \<rparr>)
       (s\<lparr>isProcessingText := True\<rparr>)"
  by (simp add: captureAndRecognize_def takePhoto_awaited_def capture_onPhoto_def
      capture_run_def imagePath_def template_string_def spread_path_def)

theorem capture_without_camera_witness:
  "capture_onPhoto ''ios'' (takePhoto_awaited None) (initial_state\<lparr>isProcessingText := True\<rparr>) =
     (initial_state\<lparr>isProcessingText := True\<rparr>,
      Some (InterpretImage \<lparr> req_path = None, req_width = None, req_height = None \<rparr>)) \<and>
   capture_onPhoto ''android'' (takePhoto_awaited None)
       (initial_state\<lparr>isProcessingText := True\<rparr>) =
     (initial_state\<lparr>isProcessingText := True\<rparr>,
      Some (InterpretImage
        \<lparr> req_path = Some ''file://undefined'', req_width = None, req_height = None \<rparr>))"
  using capture_without_camera [of "initial_state\<lparr>isProcessingText := True\<rparr>" "''ios''"
      "\<lambda>rq. Inr None"]
    capture_without_camera [of "initial_state\<lparr>isProcessingText := True\<rparr>" "''android''"
      "\<lambda>rq. Inr None"]
  by (simp add: takePhoto_awaited_def)

subsection \<open>The renderer\<close>

text \<open>
  With unique keys, as a JavaScript object has them, the row rendered for a key shows
  the values of its own entry.
\<close>

lemma contactRow_entry:
  assumes "distinct (keys info)" and "(k, vs) \<in> set info"
  shows "contactRow info k = (k @ '':'', if vs = [] then [''Undefined''] else vs)"
proof -
  from assms have "map_of info k = Some vs"
    by (simp add: keys_def)
  then show ?thesis
    by (simp add: contactRow_def)
qed

lemma contactRows_entries:
  assumes "distinct (keys info)"
  shows "map (contactRow info) (keys info) =
         map (\<lambda>(k, vs). (k @ '':'', if vs = [] then [''Undefined''] else vs)) info"
proof -
  have "map (contactRow info) (keys info) = map (\<lambda>e. contactRow info (fst e)) info"
    by (simp add: keys_def comp_def)
  also have "\<dots> = map (\<lambda>(k, vs). (k @ '':'', if vs = [] then [''Undefined''] else vs)) info"
  proof (rule map_cong [OF refl])
    fix e assume "e \<in> set info"
    then have "(fst e, snd e) \<in> set info" by simp
    from contactRow_entry [OF assms this]
    show "contactRow info (fst e) =
          (case e of (k, vs) \<Rightarrow> (k @ '':'', if vs = [] then [''Undefined''] else vs))"
      by (simp add: case_prod_beta)
  qed
  finally show ?thesis .
qed

text \<open>
  C8: the status area is the busy indicator when the busy flag is set, else the field
  list when the found flag is set, else the message text. In the field list every entry
  of the stored mapping gives one row, in order: its key, then its values in order, or
  the word \<open>Undefined\<close> when it has no value.
\<close>

theorem render_status:
  assumes "distinct (keys (contactInfo s))"
  shows "statusArea (App_render dev s) =
     (if isProcessingText s then ActivityIndicator
      else if cardIsFound s
        then ScrollView
               (map (\<lambda>(k, vs). (k @ '':'', if vs = [] then [''Undefined''] else vs))
                  (contactInfo s))
      else ErrorText (processedText s))"
  using contactRows_entries [OF assms] by (simp add: App_render_def)

theorem render_status_witness:
  "distinct (keys (contactInfo
      (onInterpret (Inr (Some \<lparr>data = Some [(''email'', [''a@x.com'']), (''phone'', [])]\<rparr>))
         initial_state))) \<and>
   statusArea (App_render None
      (onInterpret (Inr (Some \<lparr>data = Some [(''email'', [''a@x.com'']), (''phone'', [])]\<rparr>))
         initial_state)) =
     ScrollView [(''email:'', [''a@x.com'']), (''phone:'', [''Undefined''])]"
proof -
  let ?s = "onInterpret (Inr (Some \<lparr>data = Some [(''email'', [''a@x.com'']), (''phone'', [])]\<rparr>))
         initial_state"
  have d: "distinct (keys (contactInfo ?s))"
    by (simp add: onInterpret_def data_or_empty_def validateCard_def keys_def initial_state_def)
  from render_status [OF d, of None] d show ?thesis
    by (simp add: onInterpret_def data_or_empty_def validateCard_def keys_def initial_state_def)
qed

text \<open>
  C3, as the code has it: without a rear device the camera area is the text
  \<open>No Camera Found\<close>, and so it is whenever the permission flag is off, with or without
  a device; the capture view is shown when there is a device and the flag is on. The
  gallery button is rendered in every case.
\<close>

theorem camera_area:
  "cameraArea (App_render None s) = NoCameraText ''No Camera Found'' \<and>
   (\<not> hasPermissions s \<longrightarrow> cameraArea (App_render dev s) = NoCameraText ''No Camera Found'') \<and>
   (hasPermissions s \<longrightarrow> cameraArea (App_render (Some d) s) = CameraView d) \<and>
   galleryBtn (App_render dev s) = ''Pick from Gallery''"
  by (simp add: App_render_def split: option.split)

theorem camera_area_witness:
  "hasPermissions (fst (requestPermissions Granted Granted initial_state)) \<and>
   cameraArea (App_render None (fst (requestPermissions Granted Granted initial_state))) =
     NoCameraText ''No Camera Found'' \<and>
   cameraArea (App_render (Some (CameraDevice ''back''))
       (fst (requestPermissions Granted Granted initial_state))) =
     CameraView (CameraDevice ''back'') \<and>
   \<not> hasPermissions (fst (requestPermissions Denied Granted initial_state)) \<and>
   cameraArea (App_render (Some (CameraDevice ''back''))
       (fst (requestPermissions Denied Granted initial_state))) =
     NoCameraText ''No Camera Found''"
  using camera_area [of "fst (requestPermissions Granted Granted initial_state)"
      "Some (CameraDevice ''back'')" "CameraDevice ''back''"]
    camera_area [of "fst (requestPermissions Denied Granted initial_state)"
      "Some (CameraDevice ''back'')" "CameraDevice ''back''"]
  by (simp add: requestPermissions_def)

text \<open>
  The view without a device and with both permissions granted is the view with a
  device and the camera permission denied.
\<close>

theorem camera_area_counterexample:
  "App_render None (fst (requestPermissions Granted Granted initial_state)) =
   App_render (Some (CameraDevice ''back'')) (fst (requestPermissions Denied Granted initial_state))"
  by (simp add: App_render_def requestPermissions_def initial_state_def)

end
